theory Spec2Isabelle
  imports Complex_Main "HOL-Library.Monad_Syntax"
begin

section \<open>Records and collections of the ride-sharing record keeper\<close>

text \<open>
  A shallow embedding of the C++ sources \<^verbatim>\<open>driver.cpp\<close>, \<^verbatim>\<open>passenger.cpp\<close>,
  \<^verbatim>\<open>passengers.cpp\<close> and of \<^verbatim>\<open>ExecuteMenu\<close> of \<^verbatim>\<open>main.cpp\<close> and of \<^verbatim>\<open>passengersmain.cpp\<close>.

  \<^item> A class is a record of its data members; a member function takes the object first
    and returns the updated object where it assigns to a member.
  \<^item> A C++ \<^verbatim>\<open>int\<close> is an \<open>int\<close>; the programs never compute with one, they read, store,
    compare and print it, and the reading function clamps to the 32-bit range.
  \<^item> A \<^verbatim>\<open>float\<close> is the real number it denotes (type \<open>cfloat\<close>). The programs only
    read, copy, print and compare floats with 1 and 5.
  \<^item> \<^verbatim>\<open>std::vector\<close> is a list, \<^verbatim>\<open>push_back\<close> appends at the end, \<^verbatim>\<open>size()\<close> is \<open>length\<close>.
  \<^item> What a function writes to \<^verbatim>\<open>cout\<close> is the list of the values inserted with
    \<^verbatim>\<open><<\<close>, one \<open>item\<close> per insertion, in order.
\<close>

type_synonym cfloat = real

subsection \<open>The output stream\<close>

datatype item =
    OutStr string    \<comment> \<open>a string literal or a \<^verbatim>\<open>std::string\<close>\<close>
  | OutInt int       \<comment> \<open>an \<^verbatim>\<open>int\<close>\<close>
  | OutSize nat      \<comment> \<open>a \<^verbatim>\<open>size_t\<close>, as \<^verbatim>\<open>vector::size()\<close> returns\<close>
  | OutFloat cfloat  \<comment> \<open>a \<^verbatim>\<open>float\<close>\<close>
  | OutEndl          \<comment> \<open>\<^verbatim>\<open>endl\<close>\<close>

type_synonym ostream = "item list"

subsection \<open>driver (driver.h, driver.cpp)\<close>

text \<open>
  The members keep their names, but for \<^verbatim>\<open>notes\<close>, a keyword of Isabelle, written
  \<open>d_notes\<close>.
\<close>

record driver =
  d_id :: int
  d_name :: string
  v_capacity :: int
  handicap :: bool
  v_type :: string
  d_rating :: cfloat
  v_available :: bool
  pets :: bool
  d_notes :: string

text \<open>\<^verbatim>\<open>driver::driver()\<close>: every member is assigned.\<close>

definition driver_ctor :: driver where
  "driver_ctor =
     \<lparr>d_id = 0, d_name = ''None'', v_capacity = 0, handicap = False, v_type = ''Blank'',
      d_rating = 0, v_available = False, pets = False, d_notes = ''Blank''\<rparr>"

text \<open>\<^verbatim>\<open>driver::driver(int, string, int, bool, string, float, bool, bool, string)\<close>.\<close>

definition driver_ctor_args ::
  "int \<Rightarrow> string \<Rightarrow> int \<Rightarrow> bool \<Rightarrow> string \<Rightarrow> cfloat \<Rightarrow> bool \<Rightarrow> bool \<Rightarrow> string \<Rightarrow> driver" where
  "driver_ctor_args i n c h t r a pt nt =
     \<lparr>d_id = i, d_name = n, v_capacity = c, handicap = h, v_type = t,
      d_rating = r, v_available = a, pets = pt, d_notes = nt\<rparr>"

definition driver_setID :: "driver \<Rightarrow> int \<Rightarrow> driver" where
  "driver_setID this i = this\<lparr>d_id := i\<rparr>"

definition driver_setName :: "driver \<Rightarrow> string \<Rightarrow> driver" where
  "driver_setName this n = this\<lparr>d_name := n\<rparr>"

definition driver_setCapacity :: "driver \<Rightarrow> int \<Rightarrow> driver" where
  "driver_setCapacity this i = this\<lparr>v_capacity := i\<rparr>"

definition driver_setHandicap :: "driver \<Rightarrow> bool \<Rightarrow> driver" where
  "driver_setHandicap this b = this\<lparr>handicap := b\<rparr>"

definition driver_setType :: "driver \<Rightarrow> string \<Rightarrow> driver" where
  "driver_setType this t = this\<lparr>v_type := t\<rparr>"

definition driver_setRating :: "driver \<Rightarrow> cfloat \<Rightarrow> driver" where
  "driver_setRating this r = this\<lparr>d_rating := r\<rparr>"

definition driver_setAvailable :: "driver \<Rightarrow> bool \<Rightarrow> driver" where
  "driver_setAvailable this b = this\<lparr>v_available := b\<rparr>"

definition driver_setPets :: "driver \<Rightarrow> bool \<Rightarrow> driver" where
  "driver_setPets this b = this\<lparr>pets := b\<rparr>"

definition driver_setNotes :: "driver \<Rightarrow> string \<Rightarrow> driver" where
  "driver_setNotes this n = this\<lparr>d_notes := n\<rparr>"

definition driver_getID :: "driver \<Rightarrow> int" where
  "driver_getID this = d_id this"

definition driver_getName :: "driver \<Rightarrow> string" where
  "driver_getName this = d_name this"

definition driver_getCapacity :: "driver \<Rightarrow> int" where
  "driver_getCapacity this = v_capacity this"

definition driver_getHandicap :: "driver \<Rightarrow> bool" where
  "driver_getHandicap this = handicap this"

definition driver_getType :: "driver \<Rightarrow> string" where
  "driver_getType this = v_type this"

definition driver_getRating :: "driver \<Rightarrow> cfloat" where
  "driver_getRating this = d_rating this"

definition driver_getAvailable :: "driver \<Rightarrow> bool" where
  "driver_getAvailable this = v_available this"

definition driver_getPets :: "driver \<Rightarrow> bool" where
  "driver_getPets this = pets this"

definition driver_getNotes :: "driver \<Rightarrow> string" where
  "driver_getNotes this = d_notes this"

subsection \<open>passenger (passenger.h, passenger.cpp)\<close>

text \<open>
  The members of \<^verbatim>\<open>passenger\<close> are \<^verbatim>\<open>name, id, p_method, handicap, rating, pets\<close>; \<open>id\<close> is
  the identity function of HOL, and \<open>handicap\<close> and \<open>pets\<close> are members of \<open>driver\<close>, so
  these three carry the prefix \<open>p_\<close>.
\<close>

record passenger =
  name :: string
  p_id :: int
  p_method :: string
  p_handicap :: bool
  rating :: cfloat
  p_pets :: bool

text \<open>
  \<^verbatim>\<open>passenger::passenger()\<close> has an empty body and the class has no member initialisers:
  the two \<^verbatim>\<open>std::string\<close> members are default-constructed (empty), the four scalar
  members keep whatever the object's storage held. The storage before construction is
  the argument \<open>mem\<close>.
\<close>

definition passenger_ctor :: "passenger \<Rightarrow> passenger" where
  "passenger_ctor mem = mem\<lparr>name := [], p_method := []\<rparr>"

text \<open>\<^verbatim>\<open>passenger::passenger(string, int, string, bool, float, bool)\<close>.\<close>

definition passenger_ctor_args ::
  "string \<Rightarrow> int \<Rightarrow> string \<Rightarrow> bool \<Rightarrow> cfloat \<Rightarrow> bool \<Rightarrow> passenger" where
  "passenger_ctor_args n i m h r pt =
     \<lparr>name = n, p_id = i, p_method = m, p_handicap = h, rating = r, p_pets = pt\<rparr>"

definition passenger_setName :: "passenger \<Rightarrow> string \<Rightarrow> passenger" where
  "passenger_setName this n = this\<lparr>name := n\<rparr>"

definition passenger_setID :: "passenger \<Rightarrow> int \<Rightarrow> passenger" where
  "passenger_setID this i = this\<lparr>p_id := i\<rparr>"

definition passenger_setPaymentMethod :: "passenger \<Rightarrow> string \<Rightarrow> passenger" where
  "passenger_setPaymentMethod this m = this\<lparr>p_method := m\<rparr>"

definition passenger_setHandicap :: "passenger \<Rightarrow> bool \<Rightarrow> passenger" where
  "passenger_setHandicap this b = this\<lparr>p_handicap := b\<rparr>"

definition passenger_setRating :: "passenger \<Rightarrow> cfloat \<Rightarrow> passenger" where
  "passenger_setRating this f = this\<lparr>rating := f\<rparr>"

definition passenger_setPets :: "passenger \<Rightarrow> bool \<Rightarrow> passenger" where
  "passenger_setPets this b = this\<lparr>p_pets := b\<rparr>"

definition passenger_getName :: "passenger \<Rightarrow> string" where
  "passenger_getName this = name this"

definition passenger_getID :: "passenger \<Rightarrow> int" where
  "passenger_getID this = p_id this"

definition passenger_getPayment :: "passenger \<Rightarrow> string" where
  "passenger_getPayment this = p_method this"

definition passenger_getHandicap :: "passenger \<Rightarrow> bool" where
  "passenger_getHandicap this = p_handicap this"

definition passenger_getRating :: "passenger \<Rightarrow> cfloat" where
  "passenger_getRating this = rating this"

definition passenger_getPets :: "passenger \<Rightarrow> bool" where
  "passenger_getPets this = p_pets this"

subsection \<open>passengers (passengers.h, passengers.cpp)\<close>

record passengers =
  TotalPassengers :: "passenger list"
  ListName :: string

text \<open>\<^verbatim>\<open>passengers::passengers()\<close> and \<^verbatim>\<open>passengers::passengers(string)\<close>.\<close>

definition passengers_ctor :: passengers where
  "passengers_ctor = \<lparr>TotalPassengers = [], ListName = []\<rparr>"

definition passengers_ctor_name :: "string \<Rightarrow> passengers" where
  "passengers_ctor_name nm = \<lparr>TotalPassengers = [], ListName = nm\<rparr>"

text \<open>\<^verbatim>\<open>passengers::Add\<close>: \<^verbatim>\<open>TotalPassengers.push_back(p)\<close>.\<close>

definition passengers_Add :: "passengers \<Rightarrow> passenger \<Rightarrow> passengers" where
  "passengers_Add this p = this\<lparr>TotalPassengers := TotalPassengers this @ [p]\<rparr>"

text \<open>
  \<^verbatim>\<open>passengers::PrintSize\<close>, a non-const member function: the result is the object after
  the call and what the call wrote to \<^verbatim>\<open>cout\<close>.
\<close>

definition passengers_PrintSize :: "passengers \<Rightarrow> passengers \<times> ostream" where
  "passengers_PrintSize this =
     (if length (TotalPassengers this) \<noteq> 0
      then (this, [OutStr ''The size is: '', OutSize (length (TotalPassengers this)), OutEndl])
      else (this, [OutStr ''Vector is empty.\<newline>'']))"

text \<open>
  The body of the loop of \<^verbatim>\<open>passengers::PrintAll\<close> for the element \<^verbatim>\<open>*it\<close>. The blank line
  (\<^verbatim>\<open>cout << endl\<close>) is inside the else branch of the pets test, as in the source.
\<close>

definition PrintAll_body :: "passenger \<Rightarrow> ostream" where
  "PrintAll_body e =
     [OutStr ''Name: '', OutStr (passenger_getName e), OutEndl,
      OutStr ''ID: '', OutInt (passenger_getID e), OutEndl,
      OutStr ''Payment: '', OutStr (passenger_getPayment e), OutEndl,
      OutStr ''Handicap: '']
     @ (if passenger_getHandicap e = False
        then [OutStr ''Not Handicap Capable \<newline>'']
        else [OutStr ''Handicap Capable \<newline>''])
     @ [OutStr ''Ratings: '', OutFloat (passenger_getRating e), OutEndl]
     @ (if passenger_getPets e = False
        then [OutStr ''Not Pet Capable \<newline>'']
        else [OutStr ''Pet Capable \<newline>'', OutEndl])"

text \<open>
  The loop \<^verbatim>\<open>for(it = begin(); it != end(); it++, i++)\<close>: one pass over the elements from
  the iterator's position to the end. The counter \<^verbatim>\<open>i\<close> and the pointer \<^verbatim>\<open>ptr\<close> are never
  read.
\<close>

fun PrintAll_loop :: "passenger list \<Rightarrow> ostream" where
  "PrintAll_loop [] = []"
| "PrintAll_loop (e # rest) = PrintAll_body e @ PrintAll_loop rest"

definition passengers_PrintAll :: "passengers \<Rightarrow> passengers \<times> ostream" where
  "passengers_PrintAll this = (this, PrintAll_loop (TotalPassengers this))"

text \<open>
  \<^verbatim>\<open>std::find(first, last, value)\<close>: the position of the first element that compares
  equal to the value, \<^verbatim>\<open>last\<close> (here the length of the list) when there is none.
\<close>

fun std_find :: "('a \<Rightarrow> bool) \<Rightarrow> 'a list \<Rightarrow> nat" where
  "std_find eqv [] = 0"
| "std_find eqv (e # rest) = (if eqv e then 0 else Suc (std_find eqv rest))"

datatype fault = PastTheEndDereference

text \<open>
  \<^verbatim>\<open>passengers::FindEntry\<close>. The source names three things it never declares: the
  iterator \<^verbatim>\<open>it\<close>, an \<^verbatim>\<open>operator==\<close> between a \<^verbatim>\<open>passenger\<close> and an \<^verbatim>\<open>int\<close> (which
  \<^verbatim>\<open>std::find\<close> needs) and an \<^verbatim>\<open>operator<<\<close> for a \<^verbatim>\<open>passenger\<close>. The two operators are the
  parameters \<open>eqv\<close> and \<open>ins\<close>. \<^verbatim>\<open>*it\<close> is evaluated without a test against \<^verbatim>\<open>end()\<close>:
  dereferencing the past-the-end iterator is undefined behaviour, the fault
  \<open>PastTheEndDereference\<close>.
\<close>

definition passengers_FindEntry ::
  "(passenger \<Rightarrow> int \<Rightarrow> bool) \<Rightarrow> (passenger \<Rightarrow> ostream) \<Rightarrow> passengers \<Rightarrow> int
     \<Rightarrow> fault + passengers \<times> ostream" where
  "passengers_FindEntry eqv ins this n =
     (let it = std_find (\<lambda>e. eqv e n) (TotalPassengers this)
      in if it = length (TotalPassengers this) then Inl PastTheEndDereference
         else Inr (this, ins (TotalPassengers this ! it) @ [OutEndl]))"

text \<open>
  A sequence of calls of the public member functions of \<^verbatim>\<open>passengers\<close> (passengers.h),
  run on an object and on the output written so far. A call with undefined behaviour
  ends the run with the fault.
\<close>

datatype call = CallAdd passenger | CallPrintSize | CallPrintAll | CallFindEntry int

fun run_call ::
  "(passenger \<Rightarrow> int \<Rightarrow> bool) \<Rightarrow> (passenger \<Rightarrow> ostream) \<Rightarrow> passengers \<times> ostream \<Rightarrow> call
     \<Rightarrow> fault + passengers \<times> ostream" where
  "run_call eqv ins (this, out) (CallAdd p) = Inr (passengers_Add this p, out)"
| "run_call eqv ins (this, out) CallPrintSize =
     (case passengers_PrintSize this of (this', w) \<Rightarrow> Inr (this', out @ w))"
| "run_call eqv ins (this, out) CallPrintAll =
     (case passengers_PrintAll this of (this', w) \<Rightarrow> Inr (this', out @ w))"
| "run_call eqv ins (this, out) (CallFindEntry n) =
     (case passengers_FindEntry eqv ins this n of
        Inl f \<Rightarrow> Inl f
      | Inr (this', w) \<Rightarrow> Inr (this', out @ w))"

fun run_calls ::
  "(passenger \<Rightarrow> int \<Rightarrow> bool) \<Rightarrow> (passenger \<Rightarrow> ostream) \<Rightarrow> passengers \<times> ostream \<Rightarrow> call list
     \<Rightarrow> fault + passengers \<times> ostream" where
  "run_calls eqv ins st [] = Inr st"
| "run_calls eqv ins st (c # cs) =
     (case run_call eqv ins st c of Inl f \<Rightarrow> Inl f | Inr st' \<Rightarrow> run_calls eqv ins st' cs)"

subsection \<open>drivers (drivers.h)\<close>

text \<open>
  \<^verbatim>\<open>drivers.h\<close> declares the data members and \<^verbatim>\<open>drivers(string)\<close>, \<^verbatim>\<open>Add\<close> and \<^verbatim>\<open>PrintSize\<close>;
  no source file defines them. The member \<^verbatim>\<open>ListName\<close> is written \<open>DListName\<close>, the name
  without the prefix being the member of \<open>passengers\<close>.
\<close>

record drivers =
  TotalDrivers :: "driver list"
  DListName :: string

text \<open>
  Modelled from the spec: \<^verbatim>\<open>drivers::drivers(string)\<close>, whose body is not in the sources.
  The spec, section 3: a collection is created empty with a name at program start.
\<close>

definition drivers_ctor_name :: "string \<Rightarrow> drivers" where
  "drivers_ctor_name nm = \<lparr>TotalDrivers = [], DListName = nm\<rparr>"

text \<open>
  Modelled from the spec: \<^verbatim>\<open>drivers::Add\<close>, whose body is not in the sources. The spec,
  section 4.1: Add(record) appends to the end; no validation, no duplicate-id check;
  always succeeds.
\<close>

definition drivers_Add :: "drivers \<Rightarrow> driver \<Rightarrow> drivers" where
  "drivers_Add this driver1 = this\<lparr>TotalDrivers := TotalDrivers this @ [driver1]\<rparr>"

text \<open>
  Modelled from the spec: \<^verbatim>\<open>drivers::PrintSize\<close>, whose body is not in the sources. The
  spec, section 4.1: Count() returns the current number of records; side-effect-free.
\<close>

definition drivers_PrintSize :: "drivers \<Rightarrow> drivers \<times> nat" where
  "drivers_PrintSize this = (this, length (TotalDrivers this))"

section \<open>The console\<close>

subsection \<open>The input stream\<close>

text \<open>
  \<^verbatim>\<open>cin\<close> is the text not read yet, to the end of the input, and the two state bits the
  programs can reach. A stream is good when neither bit is set. The functions below are
  the extraction operators and member functions the programs call, as the C++ standard
  describes them for the classic locale; each returns the stream after the call and the
  value of the variable it was given, which is the old value \<open>old\<close> when nothing was
  stored.
\<close>

record istream =
  buf :: string
  eofbit :: bool
  failbit :: bool

definition good :: "istream \<Rightarrow> bool" where
  "good inp = (\<not> eofbit inp \<and> \<not> failbit inp)"

definition isspace :: "char \<Rightarrow> bool" where
  "isspace ch = (ch \<in> set [CHR '' '', CHR 0x09, CHR ''\<newline>'', CHR 0x0B, CHR 0x0C, CHR 0x0D])"

definition isdigit :: "char \<Rightarrow> bool" where
  "isdigit ch = (ch \<in> set ''0123456789'')"

text \<open>
  \<^verbatim>\<open>toupper\<close> in the C locale: a lower-case letter (codes 97 to 122) becomes the
  upper-case one, 32 below; every other character is returned as it is.
\<close>

definition toupper :: "char \<Rightarrow> char" where
  "toupper ch =
     (if 97 \<le> (of_char ch :: nat) \<and> (of_char ch :: nat) \<le> 122
      then char_of (of_char ch - 32 :: nat) else ch)"

text \<open>
  The sentry of an input function. A stream that is not good fails at once. A formatted
  function (\<open>noskipws\<close> false) first skips white space, and fails with both bits set when
  the input ends there.
\<close>

definition sentry :: "bool \<Rightarrow> istream \<Rightarrow> istream \<times> bool" where
  "sentry noskipws inp =
     (if \<not> good inp then (inp\<lparr>failbit := True\<rparr>, False)
      else if noskipws then (inp, True)
      else (case dropWhile isspace (buf inp) of
              [] \<Rightarrow> (inp\<lparr>buf := [], eofbit := True, failbit := True\<rparr>, False)
            | ch # rest \<Rightarrow> (inp\<lparr>buf := ch # rest\<rparr>, True)))"

text \<open>\<^verbatim>\<open>cin.ignore()\<close>: discards one character; at the end of the input it sets eofbit.\<close>

definition ignore :: "istream \<Rightarrow> istream" where
  "ignore inp =
     (case sentry True inp of
        (inp1, ok) \<Rightarrow>
          if ok then (case buf inp1 of
                        [] \<Rightarrow> inp1\<lparr>eofbit := True\<rparr>
                      | ch # rest \<Rightarrow> inp1\<lparr>buf := rest\<rparr>)
          else inp1)"

text \<open>\<^verbatim>\<open>cin >> c\<close> for a \<^verbatim>\<open>char\<close>: the first character after the white space.\<close>

definition get_char :: "istream \<Rightarrow> char \<Rightarrow> istream \<times> char" where
  "get_char inp old =
     (case sentry False inp of
        (inp1, ok) \<Rightarrow>
          if ok then (case buf inp1 of
                        [] \<Rightarrow> (inp1\<lparr>eofbit := True, failbit := True\<rparr>, old)
                      | ch # rest \<Rightarrow> (inp1\<lparr>buf := rest\<rparr>, ch))
          else (inp1, old))"

text \<open>
  \<^verbatim>\<open>cin >> s\<close> for a \<^verbatim>\<open>std::string\<close>: the characters after the white space up to the next
  white space or the end of the input (eofbit).
\<close>

definition get_string :: "istream \<Rightarrow> string \<Rightarrow> istream \<times> string" where
  "get_string inp old =
     (case sentry False inp of
        (inp1, ok) \<Rightarrow>
          if ok then
            (let w = takeWhile (\<lambda>ch. \<not> isspace ch) (buf inp1);
                 rest = dropWhile (\<lambda>ch. \<not> isspace ch) (buf inp1)
             in (inp1\<lparr>buf := rest, eofbit := (rest = []), failbit := (w = [])\<rparr>, w))
          else (inp1, old))"

text \<open>
  \<^verbatim>\<open>getline(cin, s)\<close>: no white space is skipped; the characters up to the next newline,
  which is discarded, or up to the end of the input (eofbit, and failbit when nothing
  was read).
\<close>

definition getline :: "istream \<Rightarrow> string \<Rightarrow> istream \<times> string" where
  "getline inp old =
     (case sentry True inp of
        (inp1, ok) \<Rightarrow>
          if ok then
            (let ln = takeWhile (\<lambda>ch. ch \<noteq> CHR ''\<newline>'') (buf inp1)
             in case dropWhile (\<lambda>ch. ch \<noteq> CHR ''\<newline>'') (buf inp1) of
                  [] \<Rightarrow> (inp1\<lparr>buf := [], eofbit := True, failbit := (ln = [])\<rparr>, ln)
                | nl # rest \<Rightarrow> (inp1\<lparr>buf := rest\<rparr>, ln))
          else (inp1, old))"

text \<open>The value of a sequence of decimal digits.\<close>

fun digits_val :: "int \<Rightarrow> string \<Rightarrow> int" where
  "digits_val acc [] = acc"
| "digits_val acc (ch # rest) = digits_val (10 * acc + (of_char ch - 48)) rest"

text \<open>An optional sign: whether it is a minus, and the text after it.\<close>

fun take_sign :: "string \<Rightarrow> bool \<times> string" where
  "take_sign [] = (False, [])"
| "take_sign (ch # rest) =
     (if ch = CHR ''-'' then (True, rest)
      else if ch = CHR ''+'' then (False, rest)
      else (False, ch # rest))"

text \<open>
  The integer parser of \<^verbatim>\<open>num_get\<close> in base 10 for a type with the range \<open>lo\<close> to \<open>hi\<close>:
  a sign and all the digits that follow are consumed. The result is the value, whether
  the conversion failed, and the text left. Without a digit the value is 0 and the
  conversion fails; out of the range the value is the nearest bound and the conversion
  fails.
\<close>

definition extract_int :: "int \<Rightarrow> int \<Rightarrow> string \<Rightarrow> (int \<times> bool) \<times> string" where
  "extract_int lo hi b =
     (case take_sign b of
        (neg, b1) \<Rightarrow>
          (let ds = takeWhile isdigit b1;
               rest = dropWhile isdigit b1;
               v = (if neg then - digits_val 0 ds else digits_val 0 ds)
           in if ds = [] then ((0, True), rest)
              else if v < lo then ((lo, True), rest)
              else if hi < v then ((hi, True), rest)
              else ((v, False), rest)))"

definition INT_MIN :: int where "INT_MIN = - 2147483648"
definition INT_MAX :: int where "INT_MAX = 2147483647"
definition LONG_MIN :: int where "LONG_MIN = - 9223372036854775808"
definition LONG_MAX :: int where "LONG_MAX = 9223372036854775807"

text \<open>\<^verbatim>\<open>cin >> n\<close> for an \<^verbatim>\<open>int\<close>.\<close>

definition get_int :: "istream \<Rightarrow> int \<Rightarrow> istream \<times> int" where
  "get_int inp old =
     (case sentry False inp of
        (inp1, ok) \<Rightarrow>
          if ok then
            (case extract_int INT_MIN INT_MAX (buf inp1) of
               ((v, bad), rest) \<Rightarrow>
                 (inp1\<lparr>buf := rest, eofbit := (rest = []), failbit := bad\<rparr>, v))
          else (inp1, old))"

text \<open>
  \<^verbatim>\<open>cin >> b\<close> for a \<^verbatim>\<open>bool\<close> (\<^verbatim>\<open>boolalpha\<close> is not set): a \<^verbatim>\<open>long\<close> is read; 0 is false,
  1 is true, any other value stores true and fails.
\<close>

definition get_bool :: "istream \<Rightarrow> bool \<Rightarrow> istream \<times> bool" where
  "get_bool inp old =
     (case sentry False inp of
        (inp1, ok) \<Rightarrow>
          if ok then
            (case extract_int LONG_MIN LONG_MAX (buf inp1) of
               ((l, bad), rest) \<Rightarrow>
                 if l = 0 \<or> l = 1
                 then (inp1\<lparr>buf := rest, eofbit := (rest = []), failbit := bad\<rparr>, l = 1)
                 else (inp1\<lparr>buf := rest, eofbit := (rest = []), failbit := True\<rparr>, True))
          else (inp1, old))"

text \<open>
  The floating-point parser of \<^verbatim>\<open>num_get\<close>: a sign, digits, a decimal point, digits and,
  after a mantissa, an exponent (e or E, a sign, digits). The value is the number the
  decimal text denotes; the rounding to the nearest \<^verbatim>\<open>float\<close> is not part of the model,
  so a text that is not a \<^verbatim>\<open>float\<close> exactly, such as 5.0000001, which the program reads as
  5, keeps its decimal value here. The texts 0.5, 3.0, 4.5 and 5.5 are exact.
  Without a mantissa digit, or with an exponent letter and no exponent digit, the value
  is 0 and the conversion fails; beyond the largest \<^verbatim>\<open>float\<close> the value is that bound and
  the conversion fails.
\<close>

definition FLT_MAX :: cfloat where
  "FLT_MAX = 340282346638528859811704183484516925440"

definition extract_float :: "string \<Rightarrow> (cfloat \<times> bool) \<times> string" where
  "extract_float b =
     (case take_sign b of
        (neg, b1) \<Rightarrow>
          (let ip = takeWhile isdigit b1;
               b2 = dropWhile isdigit b1;
               dot = (case b2 of [] \<Rightarrow> False | ch # r \<Rightarrow> ch = CHR ''.'');
               b3 = (if dot then tl b2 else b2);
               fp = (if dot then takeWhile isdigit b3 else []);
               b4 = (if dot then dropWhile isdigit b3 else b3);
               mant = (ip \<noteq> [] \<or> fp \<noteq> []);
               sci = (mant \<and> (case b4 of [] \<Rightarrow> False | ch # r \<Rightarrow> ch = CHR ''e'' \<or> ch = CHR ''E''));
               (eneg, b5) = (if sci then take_sign (tl b4) else (False, b4));
               ep = (if sci then takeWhile isdigit b5 else []);
               rest = (if sci then dropWhile isdigit b5 else b5);
               m = real_of_int (digits_val 0 (ip @ fp)) / 10 ^ length fp;
               a = (if eneg then m / 10 ^ nat (digits_val 0 ep) else m * 10 ^ nat (digits_val 0 ep));
               v = (if neg then - a else a)
           in if \<not> mant \<or> (sci \<and> ep = []) then ((0, True), rest)
              else if v < - FLT_MAX then ((- FLT_MAX, True), rest)
              else if FLT_MAX < v then ((FLT_MAX, True), rest)
              else ((v, False), rest)))"

text \<open>\<^verbatim>\<open>cin >> f\<close> for a \<^verbatim>\<open>float\<close>.\<close>

definition get_float :: "istream \<Rightarrow> cfloat \<Rightarrow> istream \<times> cfloat" where
  "get_float inp old =
     (case sentry False inp of
        (inp1, ok) \<Rightarrow>
          if ok then
            (case extract_float (buf inp1) of
               ((v, bad), rest) \<Rightarrow>
                 (inp1\<lparr>buf := rest, eofbit := (rest = []), failbit := bad\<rparr>, v))
          else (inp1, old))"

text \<open>The console: \<^verbatim>\<open>cin\<close> and what has been written to \<^verbatim>\<open>cout\<close>.\<close>

record console =
  cin :: istream
  cout :: ostream

definition put :: "ostream \<Rightarrow> 'a console_scheme \<Rightarrow> 'a console_scheme" where
  "put w s = s\<lparr>cout := cout s @ w\<rparr>"

definition cin_ignore :: "'a console_scheme \<Rightarrow> 'a console_scheme" where
  "cin_ignore s = s\<lparr>cin := ignore (cin s)\<rparr>"

section \<open>The add flows\<close>

subsection \<open>passengersmain.cpp\<close>

text \<open>
  \<^verbatim>\<open>ExecuteMenu\<close> of passengersmain.cpp declares \<^verbatim>\<open>int id; bool handicap; float rating;
  bool pets;\<close> without initialisers, and \<^verbatim>\<open>passenger p;\<close>, whose constructor leaves the
  scalar members. What their storage holds at entry is the argument \<open>frame\<close>; an
  extraction that stores nothing leaves it there. The strings \<^verbatim>\<open>name\<close> and \<^verbatim>\<open>p_method\<close>
  start empty. The parameter \<^verbatim>\<open>ListOfPassengers\<close> is written \<open>lop\<close>.
\<close>

record pm_frame =
  l_id :: int
  l_handicap :: bool
  l_rating :: cfloat
  l_pets :: bool
  l_p :: passenger

definition passengersmain_ExecuteMenu ::
  "pm_frame \<Rightarrow> char \<Rightarrow> passengers \<Rightarrow> console \<Rightarrow> passengers \<times> console" where
  "passengersmain_ExecuteMenu frame opt lop io0 =
     (if opt = CHR ''a'' then
        (let io1 = cin_ignore io0;
             io2 = put [OutStr ''Add To Passengers\<newline>''] io1;
             io3 = put [OutStr ''Enter Name: ''] io2;
             (i4, name_v) = getline (cin io3) [];
             io4 = put [OutEndl] (io3\<lparr>cin := i4\<rparr>);
             io5 = put [OutStr ''Enter ID: ''] io4;
             (i6, id_v) = get_int (cin io5) (l_id frame);
             io6 = put [OutEndl] (io5\<lparr>cin := i6\<rparr>);
             io7 = cin_ignore io6;
             io8 = put [OutStr ''Payment Method: ''] io7;
             (i9, p_method_v) = getline (cin io8) [];
             io9 = put [OutStr ''\<newline>''] (io8\<lparr>cin := i9\<rparr>);
             io10 = put [OutStr ''Handicap: (1 for yes, 0 for no): ''] io9;
             (i11, handicap_v) = get_bool (cin io10) (l_handicap frame);
             io11 = put [OutEndl] (io10\<lparr>cin := i11\<rparr>);
             io12 = put [OutStr ''Rating: ''] io11;
             (i13, rating_v) = get_float (cin io12) (l_rating frame);
             io13 = put [OutEndl] (io12\<lparr>cin := i13\<rparr>);
             io14 = cin_ignore io13;
             io15 = put [OutStr ''Pets: ''] io14;
             (i16, pets_v) = get_bool (cin io15) (l_pets frame);
             io16 = put [OutEndl] (io15\<lparr>cin := i16\<rparr>);
             io17 = cin_ignore io16;
             p1 = passenger_setID (passenger_ctor (l_p frame)) id_v;
             p2 = passenger_setName p1 name_v;
             p3 = passenger_setPaymentMethod p2 p_method_v;
             p4 = passenger_setHandicap p3 handicap_v;
             p5 = passenger_setRating p4 rating_v;
             p6 = passenger_setPets p5 pets_v
         in (passengers_Add lop p6, put [OutStr ''\<newline>''] io17))
      else if opt = CHR ''f'' then
        (case passengers_PrintSize lop of (lop', w) \<Rightarrow> (lop', put w io0))
      else if opt = CHR ''p'' then
        (case passengers_PrintAll lop of (lop', w) \<Rightarrow> (lop', put w io0))
      else (lop, io0))"

subsection \<open>main.cpp\<close>

text \<open>
  The state of \<^verbatim>\<open>ExecuteMenu\<close> of main.cpp: the console, the locals and the two collections
  it has references to. The locals \<^verbatim>\<open>c\<close>, \<^verbatim>\<open>d\<close> and \<^verbatim>\<open>p\<close> are written \<open>var_c\<close>, \<open>var_d\<close> and
  \<open>var_p\<close>.
\<close>

record mstate = console +
  var_c :: char
  tempNum :: int
  tempStr :: string
  tempBool :: bool
  tempFloat :: cfloat
  var_d :: driver
  var_p :: passenger
  ListOfDrivers :: drivers
  ListOfPassengers :: passengers

definition read_c :: "mstate \<Rightarrow> mstate" where
  "read_c s = (case get_char (cin s) (var_c s) of (i, v) \<Rightarrow> s\<lparr>cin := i, var_c := v\<rparr>)"

definition read_tempNum :: "mstate \<Rightarrow> mstate" where
  "read_tempNum s = (case get_int (cin s) (tempNum s) of (i, v) \<Rightarrow> s\<lparr>cin := i, tempNum := v\<rparr>)"

definition read_tempStr :: "mstate \<Rightarrow> mstate" where
  "read_tempStr s =
     (case get_string (cin s) (tempStr s) of (i, v) \<Rightarrow> s\<lparr>cin := i, tempStr := v\<rparr>)"

definition read_tempFloat :: "mstate \<Rightarrow> mstate" where
  "read_tempFloat s =
     (case get_float (cin s) (tempFloat s) of (i, v) \<Rightarrow> s\<lparr>cin := i, tempFloat := v\<rparr>)"

definition getline_tempStr :: "mstate \<Rightarrow> mstate" where
  "getline_tempStr s =
     (case getline (cin s) (tempStr s) of (i, v) \<Rightarrow> s\<lparr>cin := i, tempStr := v\<rparr>)"

text \<open>
  \<^verbatim>\<open>do body while (cond)\<close>, with the number of iterations it may run: \<open>None\<close> when the
  loop has not exited after that many.
\<close>

fun do_while :: "('s \<Rightarrow> 's) \<Rightarrow> ('s \<Rightarrow> bool) \<Rightarrow> nat \<Rightarrow> 's \<Rightarrow> 's option" where
  "do_while body cond 0 s = None"
| "do_while body cond (Suc n) s =
     (let s' = body s in if cond s' then do_while body cond n s' else Some s')"

text \<open>
  The five yes/no loops of main.cpp (lines 59-75, 97-113, 116-132, 168-184, 196-212)
  have the same body but for the prompt and the setter call, the parameters \<open>prompt\<close> and
  \<open>setter\<close>, and the same condition.
\<close>

definition yes_no_body :: "string \<Rightarrow> (mstate \<Rightarrow> mstate) \<Rightarrow> mstate \<Rightarrow> mstate" where
  "yes_no_body prompt setter s0 =
     (let s1 = put [OutStr prompt] s0;
          s2 = read_tempStr s1
      in if tempStr s2 = ''yes'' then setter (s2\<lparr>tempBool := True\<rparr>)
         else if tempStr s2 = ''no'' then setter (s2\<lparr>tempBool := False\<rparr>)
         else put [OutStr ''Please input yes or no''] s2)"

definition yes_no_cond :: "mstate \<Rightarrow> bool" where
  "yes_no_cond s = (tempStr s \<noteq> ''yes'' \<or> tempStr s \<noteq> ''no'')"

definition d_setHandicap :: "mstate \<Rightarrow> mstate" where
  "d_setHandicap s = s\<lparr>var_d := driver_setHandicap (var_d s) (tempBool s)\<rparr>"

definition d_setAvailable :: "mstate \<Rightarrow> mstate" where
  "d_setAvailable s = s\<lparr>var_d := driver_setAvailable (var_d s) (tempBool s)\<rparr>"

definition d_setPets :: "mstate \<Rightarrow> mstate" where
  "d_setPets s = s\<lparr>var_d := driver_setPets (var_d s) (tempBool s)\<rparr>"

definition p_setHandicap :: "mstate \<Rightarrow> mstate" where
  "p_setHandicap s = s\<lparr>var_p := passenger_setHandicap (var_p s) (tempBool s)\<rparr>"

definition p_setPets :: "mstate \<Rightarrow> mstate" where
  "p_setPets s = s\<lparr>var_p := passenger_setPets (var_p s) (tempBool s)\<rparr>"

text \<open>The vehicle type loop (lines 78-85).\<close>

definition type_body :: "mstate \<Rightarrow> mstate" where
  "type_body s0 =
     (let s1 = put [OutStr
            ''Please enter the veichle type of: compact, 2dr, sedan, 4dr, SUV, van, other''] s0;
          s2 = read_tempStr s1
      in s2\<lparr>var_d := driver_setType (var_d s2) (tempStr s2)\<rparr>)"

definition type_cond :: "mstate \<Rightarrow> bool" where
  "type_cond s =
     (tempStr s \<noteq> ''compact'' \<or> tempStr s \<noteq> ''2dr'' \<or> tempStr s \<noteq> ''sedan'' \<or>
      tempStr s \<noteq> ''4dr'' \<or> tempStr s \<noteq> ''SUV'' \<or> tempStr s \<noteq> ''van'' \<or>
      tempStr s \<noteq> ''other'')"

text \<open>The payment method loop (lines 159-165).\<close>

definition payment_body :: "mstate \<Rightarrow> mstate" where
  "payment_body s0 =
     (let s1 = put [OutStr ''Enter Payment Method(cash, card, debit): ''] s0;
          s2 = read_tempStr s1
      in s2\<lparr>var_p := passenger_setPaymentMethod (var_p s2) (tempStr s2)\<rparr>)"

definition payment_cond :: "mstate \<Rightarrow> bool" where
  "payment_cond s =
     (tempStr s \<noteq> ''cash'' \<or> tempStr s \<noteq> ''card'' \<or> tempStr s \<noteq> ''debit'')"

text \<open>The two rating loops (lines 88-94 and 187-193).\<close>

definition d_rating_body :: "mstate \<Rightarrow> mstate" where
  "d_rating_body s0 =
     (let s1 = put [OutStr ''Driver Rating Between 1 and 5: ''] s0;
          s2 = read_tempFloat s1
      in s2\<lparr>var_d := driver_setRating (var_d s2) (tempFloat s2)\<rparr>)"

definition p_rating_body :: "mstate \<Rightarrow> mstate" where
  "p_rating_body s0 =
     (let s1 = put [OutStr ''Passenger Rating Between 1 and 5: ''] s0;
          s2 = read_tempFloat s1
      in s2\<lparr>var_p := passenger_setRating (var_p s2) (tempFloat s2)\<rparr>)"

definition rating_cond :: "mstate \<Rightarrow> bool" where
  "rating_cond s = (tempFloat s < 1 \<or> tempFloat s > 5)"

text \<open>
  Case \<^verbatim>\<open>'A'\<close> of the inner switch (lines 41-144): the driver. Every loop may run \<open>fuel\<close>
  iterations.
\<close>

definition add_driver :: "nat \<Rightarrow> mstate \<Rightarrow> mstate option" where
  "add_driver fuel s0 =
     (let s1 = cin_ignore s0;
          s2 = read_tempNum (put [OutStr ''Enter ID: ''] s1);
          s3 = cin_ignore (s2\<lparr>var_d := driver_setID (var_d s2) (tempNum s2)\<rparr>);
          s4 = getline_tempStr (put [OutStr ''Enter Name: ''] s3);
          s5 = cin_ignore (s4\<lparr>var_d := driver_setName (var_d s4) (tempStr s4)\<rparr>);
          s6 = read_tempNum (put [OutStr ''Enter Vehicle Capacity: ''] s5);
          s7 = cin_ignore (s6\<lparr>var_d := driver_setCapacity (var_d s6) (tempNum s6)\<rparr>)
      in do {
           s8 \<leftarrow> do_while (yes_no_body ''Handicap Capable, Please Enter yes or no: ''
                     d_setHandicap) yes_no_cond fuel s7;
           s9 \<leftarrow> do_while type_body type_cond fuel (cin_ignore s8);
           s10 \<leftarrow> do_while d_rating_body rating_cond fuel (cin_ignore s9);
           s11 \<leftarrow> do_while (yes_no_body ''Available, Please Enter yes or no: ''
                     d_setAvailable) yes_no_cond fuel (cin_ignore s10);
           s12 \<leftarrow> do_while (yes_no_body ''Pets Allowed, Please Enter yes or no: ''
                     d_setPets) yes_no_cond fuel (cin_ignore s11);
           let s13 = getline_tempStr (put [OutStr ''Important Notes: ''] (cin_ignore s12));
           let s14 = cin_ignore (s13\<lparr>var_d := driver_setNotes (var_d s13) (tempStr s13)\<rparr>);
           let s15 = s14\<lparr>ListOfDrivers := drivers_Add (ListOfDrivers s14) (var_d s14)\<rparr>;
           Some (put [OutStr ''\<newline>''] s15)
         })"

text \<open>Case \<^verbatim>\<open>'B'\<close> of the inner switch (lines 146-217): the passenger.\<close>

definition add_passenger :: "nat \<Rightarrow> mstate \<Rightarrow> mstate option" where
  "add_passenger fuel s0 =
     (let s1 = cin_ignore s0;
          s2 = getline_tempStr (put [OutStr ''Enter Name: ''] s1);
          s3 = cin_ignore (s2\<lparr>var_p := passenger_setName (var_p s2) (tempStr s2)\<rparr>);
          s4 = read_tempNum (put [OutStr ''Enter ID: ''] s3);
          s5 = cin_ignore (s4\<lparr>var_p := passenger_setID (var_p s4) (tempNum s4)\<rparr>)
      in do {
           s6 \<leftarrow> do_while payment_body payment_cond fuel s5;
           s7 \<leftarrow> do_while (yes_no_body ''Handicapped, Please Enter yes or no: ''
                     p_setHandicap) yes_no_cond fuel (cin_ignore s6);
           s8 \<leftarrow> do_while p_rating_body rating_cond fuel (cin_ignore s7);
           s9 \<leftarrow> do_while (yes_no_body ''Pets with you, Please Enter yes or no: ''
                     p_setPets) yes_no_cond fuel (cin_ignore s8);
           let s10 = cin_ignore s9;
           let s11 = s10\<lparr>ListOfPassengers :=
                        passengers_Add (ListOfPassengers s10) (var_p s10)\<rparr>;
           Some (put [OutStr ''\<newline>''] s11)
         })"

text \<open>
  \<^verbatim>\<open>ExecuteMenu\<close> of main.cpp. \<open>main_locals\<close> is the state after the declarations of
  the locals (lines 22-28); the storage of \<^verbatim>\<open>p\<close> before its construction is \<open>mem\<close>, the
  other locals are initialised.
\<close>

definition main_locals :: "passenger \<Rightarrow> drivers \<Rightarrow> passengers \<Rightarrow> console \<Rightarrow> mstate" where
  "main_locals mem lod lop io =
     \<lparr>cin = cin io, cout = cout io, var_c = CHR '' '', tempNum = 0, tempStr = '' '',
      tempBool = False, tempFloat = 0, var_d = driver_ctor,
      var_p = passenger_ctor mem, ListOfDrivers = lod, ListOfPassengers = lop\<rparr>"

definition main_ExecuteMenu ::
  "passenger \<Rightarrow> nat \<Rightarrow> char \<Rightarrow> drivers \<Rightarrow> passengers \<Rightarrow> console \<Rightarrow> mstate option" where
  "main_ExecuteMenu mem fuel opt lod lop io =
     (let s0 = main_locals mem lod lop io
      in if toupper opt = CHR ''A'' then
           (let s1 = cin_ignore s0;
                s2 = put [OutStr ''Choose what list to add too.\<newline>''] s1;
                s3 = put [OutStr ''A. Drivers\<newline>'', OutStr ''B. Passengers\<newline>'',
                          OutStr ''C. Rides\<newline>''] s2;
                s4 = read_c s3
            in if toupper (var_c s4) = CHR ''A'' then add_driver fuel s4
               else if toupper (var_c s4) = CHR ''B'' then add_passenger fuel s4
               else Some s4)
         else Some s0)"

text \<open>The console at the start of a program whose whole input is the text \<open>t\<close>.\<close>

definition console_on :: "string \<Rightarrow> console" where
  "console_on t = \<lparr>cin = \<lparr>buf = t, eofbit = False, failbit = False\<rparr>, cout = []\<rparr>"

section \<open>Properties of the records and of the collections\<close>

lemma TotalPassengers_foldl_Add:
  "TotalPassengers (foldl passengers_Add c ps) = TotalPassengers c @ ps"
  by (induction ps arbitrary: c) (simp_all add: passengers_Add_def)

lemma ListName_foldl_Add: "ListName (foldl passengers_Add c ps) = ListName c"
  by (induction ps arbitrary: c) (simp_all add: passengers_Add_def)

lemma PrintAll_loop_concat: "PrintAll_loop es = concat (map PrintAll_body es)"
  by (induction es) simp_all

lemma printed_ids_body: "[n. OutInt n \<leftarrow> PrintAll_body e] = [p_id e]"
  by (simp add: PrintAll_body_def passenger_getID_def)

lemma printed_ids_loop: "[n. OutInt n \<leftarrow> PrintAll_loop es] = map p_id es"
  by (induction es) (simp_all add: printed_ids_body)

lemma TotalDrivers_foldl_Add: "TotalDrivers (foldl drivers_Add c ds) = TotalDrivers c @ ds"
  by (induction ds arbitrary: c) (simp_all add: drivers_Add_def)

text \<open>
  The driver collection as the spec describes it: after the additions \<open>ds\<close> the count
  is \<open>length ds\<close>, the empty sequence included.
\<close>

lemma drivers_PrintSize_counts_adds:
  "TotalDrivers (foldl drivers_Add (drivers_ctor_name nm) ds) = ds \<and>
   snd (drivers_PrintSize (foldl drivers_Add (drivers_ctor_name nm) ds)) = length ds"
  by (simp add: drivers_PrintSize_def TotalDrivers_foldl_Add drivers_ctor_name_def)

lemma std_find_none: "(std_find eqv es = length es) = (\<forall>e \<in> set es. \<not> eqv e)"
proof (induction es)
  case Nil
  then show ?case by simp
next
  case (Cons e es)
  then show ?case by auto
qed

lemma std_find_first:
  "\<forall>e \<in> set xs. \<not> eqv e \<Longrightarrow> eqv y \<Longrightarrow> std_find eqv (xs @ y # ys) = length xs"
  by (induction xs) simp_all

subsection \<open>Counting the additions\<close>

text \<open>
  Claim C1, as amended. After the calls \<open>Add p\<close> for the records \<open>ps\<close>, in this order, on
  a passenger collection constructed empty, the collection holds exactly \<open>ps\<close> (none
  dropped, none merged), and PrintSize prints the number of the calls when there was at
  least one; after no call it prints "Vector is empty." and no number.
\<close>

theorem PrintSize_after_adds:
  "TotalPassengers (foldl passengers_Add (passengers_ctor_name nm) ps) = ps \<and>
   snd (passengers_PrintSize (foldl passengers_Add (passengers_ctor_name nm) ps)) =
     (if ps = [] then [OutStr ''Vector is empty.\<newline>'']
      else [OutStr ''The size is: '', OutSize (length ps), OutEndl])"
  by (simp add: passengers_PrintSize_def TotalPassengers_foldl_Add passengers_ctor_name_def)

theorem PrintSize_after_adds_witness:
  "TotalPassengers (foldl passengers_Add (passengers_ctor_name ''Passengers List'')
      [passenger_ctor_args ''Bo'' 7 ''cash'' False 3 True,
       passenger_ctor_args ''Cy'' 7 ''card'' True 4.5 False])
     = [passenger_ctor_args ''Bo'' 7 ''cash'' False 3 True,
        passenger_ctor_args ''Cy'' 7 ''card'' True 4.5 False] \<and>
   snd (passengers_PrintSize (foldl passengers_Add (passengers_ctor_name ''Passengers List'')
      [passenger_ctor_args ''Bo'' 7 ''cash'' False 3 True,
       passenger_ctor_args ''Cy'' 7 ''card'' True 4.5 False]))
     = [OutStr ''The size is: '', OutSize 2, OutEndl]"
  using PrintSize_after_adds [of "''Passengers List''"
      "[passenger_ctor_args ''Bo'' 7 ''cash'' False 3 True,
        passenger_ctor_args ''Cy'' 7 ''card'' True 4.5 False]"]
  by simp

text \<open>
  Claim C1 as stated fails for the empty sequence of calls: PrintSize then reports no
  number, in particular not the number 0 of the calls made.
\<close>

theorem PrintSize_no_adds_no_number:
  "snd (passengers_PrintSize (foldl passengers_Add (passengers_ctor_name ''Passengers List'') []))
     = [OutStr ''Vector is empty.\<newline>''] \<and>
   OutSize (length ([] :: passenger list))
     \<notin> set (snd (passengers_PrintSize
          (foldl passengers_Add (passengers_ctor_name ''Passengers List'') [])))"
  by (simp add: passengers_PrintSize_def passengers_ctor_name_def)

subsection \<open>Listing\<close>

text \<open>
  Claim C2. After the calls \<open>Add p\<close> for the records \<open>ps\<close> on a passenger collection
  constructed empty, PrintAll writes the block of each record of \<open>ps\<close>, in the order of
  the additions and nothing else: the identifiers it prints are those of \<open>ps\<close> in this
  order, one per record. On the empty collection it writes nothing.
\<close>

theorem PrintAll_after_adds:
  "snd (passengers_PrintAll (foldl passengers_Add (passengers_ctor_name nm) ps))
     = concat (map PrintAll_body ps) \<and>
   [n. OutInt n \<leftarrow> snd (passengers_PrintAll (foldl passengers_Add (passengers_ctor_name nm) ps))]
     = map passenger_getID ps \<and>
   length [n. OutInt n \<leftarrow> snd (passengers_PrintAll
              (foldl passengers_Add (passengers_ctor_name nm) ps))] = length ps \<and>
   snd (passengers_PrintAll (passengers_ctor_name nm)) = []"
proof -
  have items: "TotalPassengers (foldl passengers_Add (passengers_ctor_name nm) ps) = ps"
    by (simp add: TotalPassengers_foldl_Add passengers_ctor_name_def)
  have out: "snd (passengers_PrintAll (foldl passengers_Add (passengers_ctor_name nm) ps))
      = PrintAll_loop ps"
    by (simp add: passengers_PrintAll_def items)
  have ids: "map p_id ps = map passenger_getID ps"
    by (simp add: passenger_getID_def)
  show ?thesis
    unfolding out
    by (simp add: PrintAll_loop_concat [symmetric] printed_ids_loop ids [symmetric]
        passengers_PrintAll_def passengers_ctor_name_def)
qed

subsection \<open>Finding by identifier\<close>

text \<open>
  Claim C3 asks for an explicit not-found outcome. The code has none: whatever the two
  undeclared operators are, when no record of the collection compares equal to \<open>n\<close>,
  FindEntry dereferences the past-the-end iterator.
\<close>

theorem FindEntry_no_match_undefined:
  "\<forall>e \<in> set (TotalPassengers c). \<not> eqv e n \<Longrightarrow>
     passengers_FindEntry eqv ins c n = Inl PastTheEndDereference"
  by (simp add: passengers_FindEntry_def std_find_none)

theorem FindEntry_no_match_undefined_witness:
  "passengers_FindEntry (\<lambda>e n. passenger_getID e = n) PrintAll_body
      (passengers_Add (passengers_ctor_name ''Passengers List'')
         (passenger_ctor_args ''Bo'' 7 ''cash'' False 3 True)) 8
     = Inl PastTheEndDereference \<and>
   passengers_FindEntry (\<lambda>e n. passenger_getID e = n) PrintAll_body
      (passengers_ctor_name ''Passengers List'') 7
     = Inl PastTheEndDereference"
  using FindEntry_no_match_undefined [of
      "passengers_Add (passengers_ctor_name ''Passengers List'')
         (passenger_ctor_args ''Bo'' 7 ''cash'' False 3 True)"
      "\<lambda>e n. passenger_getID e = n" 8 PrintAll_body]
    FindEntry_no_match_undefined [of "passengers_ctor_name ''Passengers List''"
      "\<lambda>e n. passenger_getID e = n" 7 PrintAll_body]
  by (simp add: passengers_Add_def passengers_ctor_name_def passenger_ctor_args_def
      passenger_getID_def)

text \<open>
  When a record compares equal, the first one in insertion order is the one written.
\<close>

lemma FindEntry_first_match:
  "TotalPassengers c = xs @ y # ys \<Longrightarrow> \<forall>e \<in> set xs. \<not> eqv e n \<Longrightarrow> eqv y n \<Longrightarrow>
     passengers_FindEntry eqv ins c n = Inr (c, ins y @ [OutEndl])"
  by (simp add: passengers_FindEntry_def std_find_first)

subsection \<open>Append is the only mutation\<close>

lemma run_call_items:
  "run_call eqv ins (c, out) x = Inr (c', out') \<Longrightarrow>
     TotalPassengers c' = TotalPassengers c @ [p. CallAdd p \<leftarrow> [x]] \<and> ListName c' = ListName c"
  by (cases x)
     (auto simp: passengers_Add_def passengers_PrintSize_def passengers_PrintAll_def
        passengers_FindEntry_def Let_def split: if_splits sum.splits prod.splits)

text \<open>
  Claim C6. Whatever sequence of calls of the public member functions runs (without
  undefined behaviour) on a passenger collection, the records held before are still
  there, unchanged and in the same order, at the front of the list; the records of the
  Add calls follow them in the order of the calls; the name is unchanged.
\<close>

theorem calls_only_append:
  "run_calls eqv ins (c, out) cs = Inr (c', out') \<Longrightarrow>
     TotalPassengers c' = TotalPassengers c @ [p. CallAdd p \<leftarrow> cs] \<and> ListName c' = ListName c"
proof (induction cs arbitrary: c out)
  case Nil
  then show ?case by simp
next
  case (Cons x cs)
  from Cons.prems obtain c1 out1 where
    step: "run_call eqv ins (c, out) x = Inr (c1, out1)" and
    rest: "run_calls eqv ins (c1, out1) cs = Inr (c', out')"
    by (auto split: sum.splits)
  from run_call_items [OF step] Cons.IH [OF rest] show ?case
    by (cases x) simp_all
qed

theorem calls_only_append_witness:
  "run_calls (\<lambda>e n. passenger_getID e = n) (\<lambda>e. [OutStr (passenger_getName e)])
      (passengers_Add (passengers_ctor_name ''Passengers List'')
         (passenger_ctor_args ''Al'' 3 ''debit'' False 5 False), [])
      [CallPrintSize, CallAdd (passenger_ctor_args ''Bo'' 7 ''cash'' False 3 True),
       CallFindEntry 7, CallAdd (passenger_ctor_args ''Cy'' 7 ''card'' True 4.5 False)]
     = Inr (\<lparr>TotalPassengers =
               [passenger_ctor_args ''Al'' 3 ''debit'' False 5 False,
                passenger_ctor_args ''Bo'' 7 ''cash'' False 3 True,
                passenger_ctor_args ''Cy'' 7 ''card'' True 4.5 False],
             ListName = ''Passengers List''\<rparr>,
            [OutStr ''The size is: '', OutSize 1, OutEndl, OutStr ''Bo'', OutEndl]) \<and>
   TotalPassengers \<lparr>TotalPassengers =
               [passenger_ctor_args ''Al'' 3 ''debit'' False 5 False,
                passenger_ctor_args ''Bo'' 7 ''cash'' False 3 True,
                passenger_ctor_args ''Cy'' 7 ''card'' True 4.5 False],
             ListName = ''Passengers List''\<rparr>
     = TotalPassengers (passengers_Add (passengers_ctor_name ''Passengers List'')
         (passenger_ctor_args ''Al'' 3 ''debit'' False 5 False))
       @ [passenger_ctor_args ''Bo'' 7 ''cash'' False 3 True,
          passenger_ctor_args ''Cy'' 7 ''card'' True 4.5 False]"
proof -
  have run: "run_calls (\<lambda>e n. passenger_getID e = n) (\<lambda>e. [OutStr (passenger_getName e)])
      (passengers_Add (passengers_ctor_name ''Passengers List'')
         (passenger_ctor_args ''Al'' 3 ''debit'' False 5 False), [])
      [CallPrintSize, CallAdd (passenger_ctor_args ''Bo'' 7 ''cash'' False 3 True),
       CallFindEntry 7, CallAdd (passenger_ctor_args ''Cy'' 7 ''card'' True 4.5 False)]
     = Inr (\<lparr>TotalPassengers =
               [passenger_ctor_args ''Al'' 3 ''debit'' False 5 False,
                passenger_ctor_args ''Bo'' 7 ''cash'' False 3 True,
                passenger_ctor_args ''Cy'' 7 ''card'' True 4.5 False],
             ListName = ''Passengers List''\<rparr>,
            [OutStr ''The size is: '', OutSize 1, OutEndl, OutStr ''Bo'', OutEndl])"
    by (simp add: passengers_Add_def passengers_ctor_name_def passengers_PrintSize_def
        passengers_FindEntry_def passenger_ctor_args_def passenger_getID_def
        passenger_getName_def)
  from calls_only_append [OF run] run show ?thesis by simp
qed

subsection \<open>Default construction\<close>

text \<open>
  Claim C7, as amended. The default constructor of a driver gives 0 to the identifier,
  the capacity and the rating, false to the three booleans, and the texts "None" to the
  name and "Blank" to the vehicle type and to the notes. The default constructor of a
  passenger gives the empty text to the name and to the payment method.
\<close>

theorem default_construction:
  "driver_getID driver_ctor = 0 \<and> driver_getName driver_ctor = ''None'' \<and>
   driver_getCapacity driver_ctor = 0 \<and> driver_getHandicap driver_ctor = False \<and>
   driver_getType driver_ctor = ''Blank'' \<and> driver_getRating driver_ctor = 0 \<and>
   driver_getAvailable driver_ctor = False \<and> driver_getPets driver_ctor = False \<and>
   driver_getNotes driver_ctor = ''Blank'' \<and>
   passenger_getName (passenger_ctor mem) = [] \<and>
   passenger_getPayment (passenger_ctor mem) = []"
  by (simp add: driver_ctor_def driver_getID_def driver_getName_def driver_getCapacity_def
      driver_getHandicap_def driver_getType_def driver_getRating_def driver_getAvailable_def
      driver_getPets_def driver_getNotes_def passenger_ctor_def passenger_getName_def
      passenger_getPayment_def)

text \<open>
  Claim C7 as stated fails on the driver: its default name is not a zero value.
\<close>

theorem default_driver_not_zero_valued:
  "\<not> (driver_getID driver_ctor = 0 \<and> driver_getName driver_ctor = [] \<and>
      driver_getCapacity driver_ctor = 0 \<and> driver_getHandicap driver_ctor = False \<and>
      driver_getType driver_ctor = [] \<and> driver_getRating driver_ctor = 0 \<and>
      driver_getAvailable driver_ctor = False \<and> driver_getPets driver_ctor = False \<and>
      driver_getNotes driver_ctor = [])"
  by (simp add: driver_ctor_def driver_getName_def)

text \<open>The scalar members of a default-constructed passenger are not assigned.\<close>

lemma passenger_ctor_scalars:
  "passenger_getID (passenger_ctor mem) = p_id mem \<and>
   passenger_getHandicap (passenger_ctor mem) = p_handicap mem \<and>
   passenger_getRating (passenger_ctor mem) = rating mem \<and>
   passenger_getPets (passenger_ctor mem) = p_pets mem"
  by (simp add: passenger_ctor_def passenger_getID_def passenger_getHandicap_def
      passenger_getRating_def passenger_getPets_def)

subsection \<open>Queries do not change the collection\<close>

text \<open>
  Claim C8. PrintSize and PrintAll return the collection they were called on, records
  and name; PrintAll called again, or after PrintSize, writes the same sequence, and
  PrintSize after PrintAll writes what it writes before.
\<close>

theorem queries_leave_collection:
  "fst (passengers_PrintSize c) = c \<and>
   fst (passengers_PrintAll c) = c \<and>
   snd (passengers_PrintAll (fst (passengers_PrintAll c))) = snd (passengers_PrintAll c) \<and>
   snd (passengers_PrintAll (fst (passengers_PrintSize c))) = snd (passengers_PrintAll c) \<and>
   snd (passengers_PrintSize (fst (passengers_PrintAll c))) = snd (passengers_PrintSize c)"
  by (simp add: passengers_PrintSize_def passengers_PrintAll_def)

subsection \<open>Setters and getters\<close>

text \<open>
  Claim C9. For every record and every value, a getter called after the setter of its
  field returns the value the setter was given, and a getter called on a record built by
  the constructor with arguments returns the argument: nothing is validated or clamped.
\<close>

theorem setters_store_exactly:
  "driver_getID (driver_setID d i) = i \<and>
   driver_getName (driver_setName d s) = s \<and>
   driver_getCapacity (driver_setCapacity d i) = i \<and>
   driver_getHandicap (driver_setHandicap d b) = b \<and>
   driver_getType (driver_setType d s) = s \<and>
   driver_getRating (driver_setRating d v) = v \<and>
   driver_getAvailable (driver_setAvailable d b) = b \<and>
   driver_getPets (driver_setPets d b) = b \<and>
   driver_getNotes (driver_setNotes d s) = s \<and>
   passenger_getName (passenger_setName p s) = s \<and>
   passenger_getID (passenger_setID p i) = i \<and>
   passenger_getPayment (passenger_setPaymentMethod p s) = s \<and>
   passenger_getHandicap (passenger_setHandicap p b) = b \<and>
   passenger_getRating (passenger_setRating p v) = v \<and>
   passenger_getPets (passenger_setPets p b) = b \<and>
   driver_getID (driver_ctor_args i1 s1 i2 b1 s2 v b2 b3 s3) = i1 \<and>
   driver_getName (driver_ctor_args i1 s1 i2 b1 s2 v b2 b3 s3) = s1 \<and>
   driver_getCapacity (driver_ctor_args i1 s1 i2 b1 s2 v b2 b3 s3) = i2 \<and>
   driver_getHandicap (driver_ctor_args i1 s1 i2 b1 s2 v b2 b3 s3) = b1 \<and>
   driver_getType (driver_ctor_args i1 s1 i2 b1 s2 v b2 b3 s3) = s2 \<and>
   driver_getRating (driver_ctor_args i1 s1 i2 b1 s2 v b2 b3 s3) = v \<and>
   driver_getAvailable (driver_ctor_args i1 s1 i2 b1 s2 v b2 b3 s3) = b2 \<and>
   driver_getPets (driver_ctor_args i1 s1 i2 b1 s2 v b2 b3 s3) = b3 \<and>
   driver_getNotes (driver_ctor_args i1 s1 i2 b1 s2 v b2 b3 s3) = s3 \<and>
   passenger_getName (passenger_ctor_args s1 i1 s2 b1 v b2) = s1 \<and>
   passenger_getID (passenger_ctor_args s1 i1 s2 b1 v b2) = i1 \<and>
   passenger_getPayment (passenger_ctor_args s1 i1 s2 b1 v b2) = s2 \<and>
   passenger_getHandicap (passenger_ctor_args s1 i1 s2 b1 v b2) = b1 \<and>
   passenger_getRating (passenger_ctor_args s1 i1 s2 b1 v b2) = v \<and>
   passenger_getPets (passenger_ctor_args s1 i1 s2 b1 v b2) = b2"
  by (simp add: driver_setID_def driver_setName_def driver_setCapacity_def
      driver_setHandicap_def driver_setType_def driver_setRating_def driver_setAvailable_def
      driver_setPets_def driver_setNotes_def driver_getID_def driver_getName_def
      driver_getCapacity_def driver_getHandicap_def driver_getType_def driver_getRating_def
      driver_getAvailable_def driver_getPets_def driver_getNotes_def
      passenger_setName_def passenger_setID_def passenger_setPaymentMethod_def
      passenger_setHandicap_def passenger_setRating_def passenger_setPets_def
      passenger_getName_def passenger_getID_def passenger_getPayment_def
      passenger_getHandicap_def passenger_getRating_def passenger_getPets_def
      driver_ctor_args_def passenger_ctor_args_def)

text \<open>The instance of the claim: a rating of 0.5 is stored and read back as it is.\<close>

theorem setters_store_exactly_witness:
  "driver_getRating (driver_setRating driver_ctor 0.5) = 0.5 \<and>
   passenger_getRating
     (passenger_setRating (passenger_ctor_args ''Bo'' 7 ''cash'' False 3 True) 0.5) = 0.5"
  using setters_store_exactly [of driver_ctor _ _ _ "0.5"
      "passenger_ctor_args ''Bo'' 7 ''cash'' False 3 True"]
  by simp

subsection \<open>PrintSize on the empty collection\<close>

text \<open>
  Claim C10. On a collection without records PrintSize writes the message
  "Vector is empty." and no number; a number is written only when the collection holds
  at least one record, and it is then the number of records.
\<close>

theorem PrintSize_empty_message:
  "(TotalPassengers c = [] \<longrightarrow>
      snd (passengers_PrintSize c) = [OutStr ''Vector is empty.\<newline>''] \<and>
      (\<forall>k. OutSize k \<notin> set (snd (passengers_PrintSize c)))) \<and>
   (\<forall>k. OutSize k \<in> set (snd (passengers_PrintSize c)) \<longrightarrow>
      TotalPassengers c \<noteq> [] \<and> k = length (TotalPassengers c)) \<and>
   (TotalPassengers c \<noteq> [] \<longrightarrow>
      snd (passengers_PrintSize c)
        = [OutStr ''The size is: '', OutSize (length (TotalPassengers c)), OutEndl])"
  by (simp add: passengers_PrintSize_def)

theorem PrintSize_empty_message_witness:
  "TotalPassengers (passengers_ctor_name ''Passengers List'') = [] \<and>
   snd (passengers_PrintSize (passengers_ctor_name ''Passengers List''))
     = [OutStr ''Vector is empty.\<newline>''] \<and>
   OutSize 0 \<notin> set (snd (passengers_PrintSize (passengers_ctor_name ''Passengers List''))) \<and>
   OutSize 1 \<in> set (snd (passengers_PrintSize
       (passengers_Add passengers_ctor (passenger_ctor_args ''Bo'' 7 ''cash'' False 3 True)))) \<and>
   TotalPassengers
       (passengers_Add passengers_ctor (passenger_ctor_args ''Bo'' 7 ''cash'' False 3 True))
     \<noteq> []"
proof -
  have e: "TotalPassengers (passengers_ctor_name ''Passengers List'') = []"
    by (simp add: passengers_ctor_name_def)
  have one: "OutSize 1 \<in> set (snd (passengers_PrintSize
       (passengers_Add passengers_ctor (passenger_ctor_args ''Bo'' 7 ''cash'' False 3 True))))"
    by (simp add: passengers_PrintSize_def passengers_Add_def passengers_ctor_def)
  from PrintSize_empty_message [of "passengers_ctor_name ''Passengers List''"] e
    PrintSize_empty_message [of
      "passengers_Add passengers_ctor (passenger_ctor_args ''Bo'' 7 ''cash'' False 3 True)"]
    one
  show ?thesis by blast
qed

section \<open>Properties of the add flows\<close>

lemmas io_defs = console_on_def main_locals_def put_def cin_ignore_def read_tempStr_def
  read_tempFloat_def get_string_def sentry_def good_def isspace_def ignore_def

lemmas parse_defs = get_int_def get_bool_def get_float_def getline_def extract_int_def
  extract_float_def isdigit_def INT_MIN_def INT_MAX_def LONG_MIN_def LONG_MAX_def FLT_MAX_def

subsection \<open>The validation loops of main.cpp\<close>

lemma do_while_cond_always: "(\<And>t. cond t) \<Longrightarrow> do_while body cond n s = None"
  by (induction n arbitrary: s) (simp_all add: Let_def)

text \<open>A string differs from ''yes'' or differs from ''no'': the conditions always hold.\<close>

lemma yes_no_cond_always: "yes_no_cond t"
proof (cases "tempStr t = ''yes''")
  case True
  then show ?thesis unfolding yes_no_cond_def by simp
next
  case False
  then show ?thesis unfolding yes_no_cond_def by blast
qed

lemma type_cond_always: "type_cond t"
proof (cases "tempStr t = ''compact''")
  case True
  then show ?thesis unfolding type_cond_def by simp
next
  case False
  then show ?thesis unfolding type_cond_def by blast
qed

lemma payment_cond_always: "payment_cond t"
proof (cases "tempStr t = ''cash''")
  case True
  then show ?thesis unfolding payment_cond_def by simp
next
  case False
  then show ?thesis unfolding payment_cond_def by blast
qed

lemma yes_no_loop_None: "do_while (yes_no_body prompt setter) yes_no_cond n s = None"
  by (rule do_while_cond_always) (rule yes_no_cond_always)

lemma type_loop_None: "do_while type_body type_cond n s = None"
  by (rule do_while_cond_always) (rule type_cond_always)

lemma payment_loop_None: "do_while payment_body payment_cond n s = None"
  by (rule do_while_cond_always) (rule payment_cond_always)

text \<open>
  Claim C4 says that each validation loop terminates, after a single iteration. The
  code does not: the conditions are written with \<^verbatim>\<open>||\<close> where \<^verbatim>\<open>&&\<close> was meant, so the
  condition of each yes/no loop, of the vehicle type loop and of the payment method loop
  holds in every state \<open>t\<close>, and whatever the console input and the state \<open>s\<close> a loop
  starts in, it has not exited after \<open>n\<close> iterations, for any \<open>n\<close>. A valid answer does not
  end the loop either.
\<close>

theorem validation_loops_never_exit:
  "yes_no_cond t \<and> type_cond t \<and> payment_cond t \<and>
   do_while (yes_no_body prompt setter) yes_no_cond n s = None \<and>
   do_while type_body type_cond n s = None \<and>
   do_while payment_body payment_cond n s = None"
  by (simp add: yes_no_loop_None type_loop_None payment_loop_None yes_no_cond_always
      type_cond_always payment_cond_always)

theorem validation_loops_never_exit_witness:
  "do_while (yes_no_body ''Handicap Capable, Please Enter yes or no: '' d_setHandicap)
      yes_no_cond 3
      (main_locals (passenger_ctor_args [] 0 [] False 0 False) (drivers_ctor_name ''Drivers List'')
         (passengers_ctor_name ''Passengers List'') (console_on ''yes\<newline>no\<newline>yes\<newline>'')) = None \<and>
   do_while type_body type_cond 3
      (main_locals (passenger_ctor_args [] 0 [] False 0 False) (drivers_ctor_name ''Drivers List'')
         (passengers_ctor_name ''Passengers List'') (console_on ''sedan\<newline>van\<newline>'')) = None \<and>
   do_while payment_body payment_cond 3
      (main_locals (passenger_ctor_args [] 0 [] False 0 False) (drivers_ctor_name ''Drivers List'')
         (passengers_ctor_name ''Passengers List'') (console_on ''cash\<newline>'')) = None"
  using validation_loops_never_exit [of _ "''Handicap Capable, Please Enter yes or no: ''"
      d_setHandicap 3
      "main_locals (passenger_ctor_args [] 0 [] False 0 False) (drivers_ctor_name ''Drivers List'')
         (passengers_ctor_name ''Passengers List'') (console_on ''yes\<newline>no\<newline>yes\<newline>'')"]
    validation_loops_never_exit [of _ _ _ 3
      "main_locals (passenger_ctor_args [] 0 [] False 0 False) (drivers_ctor_name ''Drivers List'')
         (passengers_ctor_name ''Passengers List'') (console_on ''sedan\<newline>van\<newline>'')"]
    validation_loops_never_exit [of _ _ _ 3
      "main_locals (passenger_ctor_args [] 0 [] False 0 False) (drivers_ctor_name ''Drivers List'')
         (passengers_ctor_name ''Passengers List'') (console_on ''cash\<newline>'')"]
  by simp

text \<open>
  The first yes/no loop on the input line "yes": the iteration reads ''yes'' and sets the
  driver's handicap flag, and the loop has not exited after this single iteration.
\<close>

theorem yes_does_not_end_handicap_loop:
  "tempStr (yes_no_body ''Handicap Capable, Please Enter yes or no: '' d_setHandicap
      (main_locals (passenger_ctor_args [] 0 [] False 0 False) (drivers_ctor_name ''Drivers List'')
         (passengers_ctor_name ''Passengers List'') (console_on ''yes\<newline>''))) = ''yes'' \<and>
   driver_getHandicap (var_d (yes_no_body ''Handicap Capable, Please Enter yes or no: ''
      d_setHandicap
      (main_locals (passenger_ctor_args [] 0 [] False 0 False) (drivers_ctor_name ''Drivers List'')
         (passengers_ctor_name ''Passengers List'') (console_on ''yes\<newline>'')))) = True \<and>
   do_while (yes_no_body ''Handicap Capable, Please Enter yes or no: '' d_setHandicap)
      yes_no_cond 1
      (main_locals (passenger_ctor_args [] 0 [] False 0 False) (drivers_ctor_name ''Drivers List'')
         (passengers_ctor_name ''Passengers List'') (console_on ''yes\<newline>'')) = None"
  by (simp add: io_defs yes_no_body_def yes_no_cond_def d_setHandicap_def
      driver_getHandicap_def driver_setHandicap_def Let_def)

text \<open>
  With the conjunction of the two tests in place of their disjunction, the same iteration
  on the same input is the last one.
\<close>

lemma conjunction_would_end_handicap_loop:
  "map_option (\<lambda>t. (tempStr t, driver_getHandicap (var_d t), buf (cin t)))
     (do_while (yes_no_body ''Handicap Capable, Please Enter yes or no: '' d_setHandicap)
        (\<lambda>s. tempStr s \<noteq> ''yes'' \<and> tempStr s \<noteq> ''no'') 1
        (main_locals (passenger_ctor_args [] 0 [] False 0 False)
           (drivers_ctor_name ''Drivers List'') (passengers_ctor_name ''Passengers List'')
           (console_on ''yes\<newline>'')))
     = Some (''yes'', True, ''\<newline>'')"
  by (simp add: io_defs yes_no_body_def d_setHandicap_def driver_getHandicap_def
      driver_setHandicap_def Let_def)

text \<open>
  Both add flows of main.cpp start a loop that never exits before they reach the call of
  Add: \<^verbatim>\<open>ExecuteMenu\<close> of main.cpp returns only where it adds nothing.
\<close>

lemma add_driver_never_returns: "add_driver fuel s = None"
  unfolding add_driver_def Let_def by (simp only: yes_no_loop_None Option.bind.simps)

lemma add_passenger_never_returns: "add_passenger fuel s = None"
  unfolding add_passenger_def Let_def by (simp only: payment_loop_None Option.bind.simps)

lemma read_c_lists:
  "ListOfDrivers (read_c s) = ListOfDrivers s \<and> ListOfPassengers (read_c s) = ListOfPassengers s"
  by (simp add: read_c_def split: prod.splits)

lemma main_ExecuteMenu_stores_nothing:
  "main_ExecuteMenu mem fuel opt lod lop io = Some t \<Longrightarrow>
     ListOfDrivers t = lod \<and> ListOfPassengers t = lop"
proof -
  assume r: "main_ExecuteMenu mem fuel opt lod lop io = Some t"
  define s0 where "s0 = main_locals mem lod lop io"
  define s4 where "s4 = read_c (put [OutStr ''A. Drivers\<newline>'', OutStr ''B. Passengers\<newline>'',
      OutStr ''C. Rides\<newline>''] (put [OutStr ''Choose what list to add too.\<newline>''] (cin_ignore s0)))"
  have l0: "ListOfDrivers s0 = lod \<and> ListOfPassengers s0 = lop"
    by (simp add: s0_def main_locals_def)
  have l4: "ListOfDrivers s4 = lod \<and> ListOfPassengers s4 = lop"
    by (simp add: s4_def read_c_lists put_def cin_ignore_def l0)
  from r have "t = s0 \<or> t = s4"
    unfolding main_ExecuteMenu_def Let_def s0_def [symmetric] s4_def [symmetric]
    by (simp add: add_driver_never_returns add_passenger_never_returns split: if_splits)
  with l0 l4 show ?thesis by blast
qed

subsection \<open>Ratings\<close>

text \<open>
  The rating loops of main.cpp test the value read: when one exits, the rating it has
  set is between 1 and 5, and a rating in this range ends it at once.
\<close>

lemma d_rating_body_stores:
  "driver_getRating (var_d (d_rating_body s)) = tempFloat (d_rating_body s)"
  by (simp add: d_rating_body_def Let_def driver_getRating_def driver_setRating_def)

lemma p_rating_body_stores:
  "passenger_getRating (var_p (p_rating_body s)) = tempFloat (p_rating_body s)"
  by (simp add: p_rating_body_def Let_def passenger_getRating_def passenger_setRating_def)

lemma d_rating_loop_exit:
  "do_while d_rating_body rating_cond n s = Some t \<Longrightarrow>
     1 \<le> driver_getRating (var_d t) \<and> driver_getRating (var_d t) \<le> 5"
proof (induction n arbitrary: s)
  case 0
  then show ?case by simp
next
  case (Suc n)
  show ?case
  proof (cases "rating_cond (d_rating_body s)")
    case True
    with Suc.prems have "do_while d_rating_body rating_cond n (d_rating_body s) = Some t"
      by (simp add: Let_def)
    then show ?thesis by (rule Suc.IH)
  next
    case False
    with Suc.prems have t: "t = d_rating_body s" by (simp add: Let_def)
    from False show ?thesis
      unfolding t d_rating_body_stores by (simp add: rating_cond_def)
  qed
qed

lemma p_rating_loop_exit:
  "do_while p_rating_body rating_cond n s = Some t \<Longrightarrow>
     1 \<le> passenger_getRating (var_p t) \<and> passenger_getRating (var_p t) \<le> 5"
proof (induction n arbitrary: s)
  case 0
  then show ?case by simp
next
  case (Suc n)
  show ?case
  proof (cases "rating_cond (p_rating_body s)")
    case True
    with Suc.prems have "do_while p_rating_body rating_cond n (p_rating_body s) = Some t"
      by (simp add: Let_def)
    then show ?thesis by (rule Suc.IH)
  next
    case False
    with Suc.prems have t: "t = p_rating_body s" by (simp add: Let_def)
    from False show ?thesis
      unfolding t p_rating_body_stores by (simp add: rating_cond_def)
  qed
qed

lemma rating_loop_rejects_then_accepts:
  "map_option (\<lambda>t. (driver_getRating (var_d t), buf (cin t)))
     (do_while d_rating_body rating_cond 3
        (main_locals (passenger_ctor_args [] 0 [] False 0 False)
           (drivers_ctor_name ''Drivers List'') (passengers_ctor_name ''Passengers List'')
           (console_on ''0.5\<newline>5.5\<newline>4.5\<newline>'')))
     = Some (4.5, ''\<newline>'')"
  by (simp add: io_defs parse_defs d_rating_body_def rating_cond_def driver_getRating_def
      driver_setRating_def Let_def numeral_3_eq_3)

text \<open>
  The add flow of passengersmain.cpp, with the option a and the input lines Bo, 7, cash
  and 0 followed by any text \<open>rest\<close>: the record added has the rating that the extraction
  of a \<^verbatim>\<open>float\<close> from \<open>rest\<close> gives, whatever it is. No test stands between the extraction
  and the call of Add.
\<close>

lemma ignore_good:
  "ignore \<lparr>buf = ch # rest, eofbit = False, failbit = False\<rparr>
     = \<lparr>buf = rest, eofbit = False, failbit = False\<rparr>"
  by (simp add: ignore_def sentry_def good_def)

lemma passengersmain_reads_Bo:
  "getline \<lparr>buf = ''Bo\<newline>7\<newline>cash\<newline>0\<newline>'' @ rest, eofbit = False, failbit = False\<rparr> []
     = (\<lparr>buf = ''7\<newline>cash\<newline>0\<newline>'' @ rest, eofbit = False, failbit = False\<rparr>, ''Bo'')"
  "get_int \<lparr>buf = ''7\<newline>cash\<newline>0\<newline>'' @ rest, eofbit = False, failbit = False\<rparr> old_id
     = (\<lparr>buf = ''\<newline>cash\<newline>0\<newline>'' @ rest, eofbit = False, failbit = False\<rparr>, 7)"
  "getline \<lparr>buf = ''cash\<newline>0\<newline>'' @ rest, eofbit = False, failbit = False\<rparr> []
     = (\<lparr>buf = ''0\<newline>'' @ rest, eofbit = False, failbit = False\<rparr>, ''cash'')"
  "get_bool \<lparr>buf = ''0\<newline>'' @ rest, eofbit = False, failbit = False\<rparr> old_handicap
     = (\<lparr>buf = ''\<newline>'' @ rest, eofbit = False, failbit = False\<rparr>, False)"
  by (simp_all add: getline_def get_int_def get_bool_def sentry_def good_def isspace_def
      extract_int_def isdigit_def INT_MIN_def INT_MAX_def LONG_MIN_def LONG_MAX_def)

lemma passengersmain_adds_Bo:
  "TotalPassengers (fst (passengersmain_ExecuteMenu frame CHR ''a''
       (passengers_ctor_name ''Passengers List'')
       (console_on (''\<newline>Bo\<newline>7\<newline>cash\<newline>0\<newline>'' @ rest))))
     = [passenger_ctor_args ''Bo'' 7 ''cash'' False
          (snd (get_float \<lparr>buf = ''\<newline>'' @ rest, eofbit = False, failbit = False\<rparr>
             (l_rating frame)))
          (snd (get_bool
             (ignore (fst (get_float \<lparr>buf = ''\<newline>'' @ rest, eofbit = False, failbit = False\<rparr>
                (l_rating frame))))
             (l_pets frame)))]"
  by (simp add: passengersmain_ExecuteMenu_def console_on_def put_def cin_ignore_def
      ignore_good passengersmain_reads_Bo [simplified] split_beta
      passengers_Add_def passengers_ctor_name_def passenger_ctor_def passenger_ctor_args_def
      passenger_setID_def passenger_setName_def passenger_setPaymentMethod_def
      passenger_setHandicap_def passenger_setRating_def passenger_setPets_def)

lemma reads_rating_and_pets:
  "get_float \<lparr>buf = ''\<newline>0.5\<newline>1\<newline>q\<newline>'', eofbit = False, failbit = False\<rparr> old_rating
     = (\<lparr>buf = ''\<newline>1\<newline>q\<newline>'', eofbit = False, failbit = False\<rparr>, 0.5)"
  "get_float \<lparr>buf = ''\<newline>5.5\<newline>1\<newline>q\<newline>'', eofbit = False, failbit = False\<rparr> old_rating
     = (\<lparr>buf = ''\<newline>1\<newline>q\<newline>'', eofbit = False, failbit = False\<rparr>, 5.5)"
  "get_float \<lparr>buf = ''\<newline>3.0\<newline>1\<newline>q\<newline>'', eofbit = False, failbit = False\<rparr> old_rating
     = (\<lparr>buf = ''\<newline>1\<newline>q\<newline>'', eofbit = False, failbit = False\<rparr>, 3)"
  "get_bool \<lparr>buf = ''1\<newline>q\<newline>'', eofbit = False, failbit = False\<rparr> old_pets
     = (\<lparr>buf = ''\<newline>q\<newline>'', eofbit = False, failbit = False\<rparr>, True)"
  by (simp_all add: get_float_def get_bool_def sentry_def good_def isspace_def
      extract_float_def extract_int_def isdigit_def LONG_MIN_def LONG_MAX_def FLT_MAX_def Let_def)

text \<open>
  Claim C5 asks that a rating outside 1 to 5 is never stored. The add flow of
  passengersmain.cpp stores the rating it reads without a test: with the option a and the
  input lines Bo, 7, cash, 0, 0.5, 1 the collection receives Bo's record with the rating
  0.5, and with 5.5 in place of 0.5 it receives the record with the rating 5.5, whatever
  the storage of the uninitialised locals held.
\<close>

theorem passengersmain_stores_unchecked_rating:
  "TotalPassengers (fst (passengersmain_ExecuteMenu frame CHR ''a''
       (passengers_ctor_name ''Passengers List'')
       (console_on ''\<newline>Bo\<newline>7\<newline>cash\<newline>0\<newline>0.5\<newline>1\<newline>q\<newline>'')))
     = [passenger_ctor_args ''Bo'' 7 ''cash'' False 0.5 True] \<and>
   TotalPassengers (fst (passengersmain_ExecuteMenu frame CHR ''a''
       (passengers_ctor_name ''Passengers List'')
       (console_on ''\<newline>Bo\<newline>7\<newline>cash\<newline>0\<newline>5.5\<newline>1\<newline>q\<newline>'')))
     = [passenger_ctor_args ''Bo'' 7 ''cash'' False 5.5 True]"
  using passengersmain_adds_Bo [of frame "''0.5\<newline>1\<newline>q\<newline>''"]
    passengersmain_adds_Bo [of frame "''5.5\<newline>1\<newline>q\<newline>''"]
  by (simp add: reads_rating_and_pets ignore_good)

text \<open>A rating in the range is stored as well.\<close>

lemma passengersmain_stores_rating_in_range:
  "TotalPassengers (fst (passengersmain_ExecuteMenu frame CHR ''a''
       (passengers_ctor_name ''Passengers List'')
       (console_on ''\<newline>Bo\<newline>7\<newline>cash\<newline>0\<newline>3.0\<newline>1\<newline>q\<newline>'')))
     = [passenger_ctor_args ''Bo'' 7 ''cash'' False 3 True]"
  using passengersmain_adds_Bo [of frame "''3.0\<newline>1\<newline>q\<newline>''"]
  by (simp add: reads_rating_and_pets ignore_good)


end
